theory Spec2Isabelle
  imports Complex_Main "HOL-Library.Sublist"
begin

section \<open>Cart of the order page\<close>

text \<open>
  Source: \<^verbatim>\<open>src/frontend/app/prescriptions/page.tsx\<close>, component \<^verbatim>\<open>OrderPage\<close>.
  A medicine is the object the search (or the \<^verbatim>\<open>addMedicine\<close> URL parameter) delivers:
  \<^verbatim>\<open>interface Medicine { id: number; name: string; ...; price: number }\<close>. A cart row is
  that object with a \<^verbatim>\<open>quantity\<close> field. The field \<^verbatim>\<open>id\<close> is written \<open>id'\<close>, since
  \<open>id\<close> is the identity function of HOL. Identifiers and quantities are integers. A price is
  carried in a row as the rational value of its double; the model does no arithmetic on
  prices: the total of the page, a \<^verbatim>\<open>reduce\<close> in IEEE double arithmetic, is not modelled.
\<close>

record Medicine =
  id' :: int
  name :: string
  price :: rat

record CartItem = Medicine +
  quantity :: int

text \<open>\<^verbatim>\<open>{ ...medicine, quantity: 1 }\<close>: the fields of the medicine, \<^verbatim>\<open>quantity\<close> set (or overwritten).\<close>

definition with_quantity_1 :: "'a Medicine_scheme \<Rightarrow> CartItem" where
  "with_quantity_1 medicine =
     \<lparr>id' = id' medicine, name = name medicine, price = price medicine, quantity = 1\<rparr>"

text \<open>
  \<^verbatim>\<open>
  const addToCart = (medicine: any) => {
    const existing = cart.find(m => m.id === medicine.id);
    if (existing) {
      setCart(cart.map(m => m.id === medicine.id ? { ...m, quantity: m.quantity + 1 } : m));
    } else {
      setCart([...cart, { ...medicine, quantity: 1 }]);
    }
    toast.success(`${medicine.name} added`);
  };
  \<close>
  The function is given the cart and returns the cart passed to \<^verbatim>\<open>setCart\<close>.
\<close>

definition addToCart :: "CartItem list \<Rightarrow> 'a Medicine_scheme \<Rightarrow> CartItem list" where
  "addToCart cart medicine =
     (case find (\<lambda>m. id' m = id' medicine) cart of
        Some existing \<Rightarrow>
          map (\<lambda>m. if id' m = id' medicine then m\<lparr>quantity := quantity m + 1\<rparr> else m) cart
      | None \<Rightarrow> cart @ [with_quantity_1 medicine])"

text \<open>
  The updater of the \<^verbatim>\<open>addMedicine\<close> URL-parameter effect,
  \<^verbatim>\<open>setCart(prevCart => { ... })\<close>, with the same two branches over \<^verbatim>\<open>prevCart\<close>.
\<close>

definition addMedicineParam_update :: "'a Medicine_scheme \<Rightarrow> CartItem list \<Rightarrow> CartItem list" where
  "addMedicineParam_update medicine prevCart =
     (case find (\<lambda>m. id' m = id' medicine) prevCart of
        Some existing \<Rightarrow>
          map (\<lambda>m. if id' m = id' medicine then m\<lparr>quantity := quantity m + 1\<rparr> else m) prevCart
      | None \<Rightarrow> prevCart @ [with_quantity_1 medicine])"

text \<open>
  \<^verbatim>\<open>
  const updateQuantity = (id: number, qty: number) => {
    if (qty < 1) {
      setCart(cart.filter(m => m.id !== id));
      return;
    }
    setCart(cart.map(m => m.id === id ? { ...m, quantity: qty } : m));
  };
  \<close>
\<close>

definition updateQuantity :: "CartItem list \<Rightarrow> int \<Rightarrow> int \<Rightarrow> CartItem list" where
  "updateQuantity cart i qty =
     (if qty < 1 then filter (\<lambda>m. id' m \<noteq> i) cart
      else map (\<lambda>m. if id' m = i then m\<lparr>quantity := qty\<rparr> else m) cart)"

text \<open>The cart operations a user can trigger, and a run of them from a given cart.\<close>

datatype cart_op = AddItem Medicine | SetQuantity int int

fun apply_cart_op :: "CartItem list \<Rightarrow> cart_op \<Rightarrow> CartItem list" where
  "apply_cart_op cart (AddItem medicine) = addToCart cart medicine"
| "apply_cart_op cart (SetQuantity i qty) = updateQuantity cart i qty"

definition run_cart_ops :: "CartItem list \<Rightarrow> cart_op list \<Rightarrow> CartItem list" where
  "run_cart_ops cart ops = foldl apply_cart_op cart ops"

definition add_all :: "CartItem list \<Rightarrow> Medicine list \<Rightarrow> CartItem list" where
  "add_all cart medicines = foldl addToCart cart medicines"

text \<open>
  A notion of the specification: the identifiers of a list in the order of their first
  occurrence.
\<close>

fun first_occurrences :: "int list \<Rightarrow> int list" where
  "first_occurrences [] = []"
| "first_occurrences (x # xs) = x # filter (\<lambda>y. y \<noteq> x) (first_occurrences xs)"

section \<open>Checkout on the order page\<close>

text \<open>
  The handlers report through \<^verbatim>\<open>toast\<close>; the model keeps the toasts shown, in order. The
  fields are the state variables of \<^verbatim>\<open>OrderPage\<close> that the two checkout handlers read or
  write; \<open>loggedIn\<close> is the truth value of \<^verbatim>\<open>user\<close> from \<^verbatim>\<open>useAuth()\<close>, \<open>route\<close> the
  last \<^verbatim>\<open>router.push\<close>.
\<close>

datatype toast = Toast_error string | Toast_success string | Toast_info string

record OrderPage =
  cart :: "CartItem list"
  address :: string
  phone :: string
  showDialog :: bool
  loggedIn :: bool
  toasts :: "toast list"
  route :: "string option"

text \<open>
  \<^verbatim>\<open>
  const handlePlaceOrder = () => {
    if (cart.length === 0) { toast.error('Cart is empty'); return; }
    if (!address || !phone) { toast.error('Fill all fields'); return; }
    setShowDialog(true);
  };
  \<close>
  The falsy string is the empty string: \<^verbatim>\<open>!address\<close> is \<open>address st = []\<close>.
\<close>

definition handlePlaceOrder :: "OrderPage \<Rightarrow> OrderPage" where
  "handlePlaceOrder st =
     (if length (cart st) = 0 then st\<lparr>toasts := toasts st @ [Toast_error ''Cart is empty'']\<rparr>
      else if address st = [] \<or> phone st = []
        then st\<lparr>toasts := toasts st @ [Toast_error ''Fill all fields'']\<rparr>
      else st\<lparr>showDialog := True\<rparr>)"

text \<open>
  What an awaited call of the API client delivers. \<open>Rejected\<close>: the promise rejects (no
  connection, a body that is not JSON and, in \<^verbatim>\<open>apiRequest\<close>, a status that is not 2xx).
  \<open>Resolved_null\<close>: the body is the JSON value \<^verbatim>\<open>null\<close>, so that reading a property of
  it throws a \<^verbatim>\<open>TypeError\<close>. \<open>Resolved r\<close>: any other body, seen through the properties
  the caller reads. \<^verbatim>\<open>api.createOrder\<close> is a bare \<^verbatim>\<open>fetch\<close>: a response with an error
  status resolves with its body.
\<close>

datatype 'a awaited = Rejected | Resolved_null | Resolved 'a

text \<open>The truth value of \<^verbatim>\<open>response.success\<close>.\<close>

record OrderResponse =
  success :: bool

text \<open>
  \<^verbatim>\<open>
  const confirmOrder = async () => {
    if (!user) { toast.error('User not logged in'); return; }
    try {
      const shopData = shops.find(s => s.id.toString() === selectedShop);
      const response = await api.createOrder({ userId: user.id, medicines: cart, ... });
      if (response.success) {
        toast.success('Order placed successfully!');
        setShowDialog(false);
        setCart([]);
        router.push('/consultations');
      }
    } catch {
      toast.error('Order failed');
    }
  };
  \<close>
  The first argument is what \<^verbatim>\<open>await api.createOrder(...)\<close> delivers. The request is
  built from the state (user id, cart, shop, address, phone, total, symptoms) and writes
  nothing; an exception while it is built (a shop without \<^verbatim>\<open>id\<close>) is caught by the same
  \<^verbatim>\<open>catch\<close> as a rejected request and is covered by \<open>Rejected\<close>.
\<close>

definition confirmOrder :: "OrderResponse awaited \<Rightarrow> OrderPage \<Rightarrow> OrderPage" where
  "confirmOrder response st =
     (if \<not> loggedIn st then st\<lparr>toasts := toasts st @ [Toast_error ''User not logged in'']\<rparr>
      else
        (case response of
           Resolved r \<Rightarrow>
             if success r
             then st\<lparr>toasts := toasts st @ [Toast_success ''Order placed successfully!''],
                     showDialog := False, cart := [], route := Some ''/consultations''\<rparr>
             else st
         | _ \<Rightarrow> st\<lparr>toasts := toasts st @ [Toast_error ''Order failed'']\<rparr>))"

text \<open>
  A notion of the specification: a message names a field when the name of the field occurs
  in it, whatever the case of its letters.
\<close>

definition to_lower :: "char \<Rightarrow> char" where
  "to_lower c =
     (if (65::nat) \<le> of_char c \<and> (of_char c :: nat) \<le> 90 then char_of (of_char c + 32 :: nat) else c)"

definition names_field :: "string \<Rightarrow> string \<Rightarrow> bool" where
  "names_field msg field = sublist (map to_lower field) (map to_lower msg)"

section \<open>Notification poll of the consultations page\<close>

text \<open>
  Source: \<^verbatim>\<open>src/unnamed/part_001\<close>, component \<^verbatim>\<open>ConsultationsPage\<close>.
\<close>

record Notification =
  notif_id :: string
  userId :: string
  notif_type :: string
  title :: string
  message :: string
  read :: bool
  createdAt :: string
  consultationId :: "int option"

text \<open>
  The body of \<^verbatim>\<open>api.getNotifications\<close>: \<^verbatim>\<open>response.notifications\<close> and
  \<^verbatim>\<open>response.unreadCount\<close>, \<open>None\<close> where the property is missing.
\<close>

record NotificationsResponse =
  resp_notifications :: "Notification list option"
  resp_unreadCount :: "int option"

record ConsultationsPage =
  notifications :: "Notification list"
  unreadCount :: int
  hasUser :: bool
  console_errors :: "string list"

text \<open>
  \<^verbatim>\<open>
  const loadNotifications = async () => {
    if (!user) return;
    try {
      const response = await api.getNotifications(user.id || user.email, false, 20);
      setNotifications(response.notifications || []);
      setUnreadCount(response.unreadCount || 0);
    } catch (error) {
      console.error('Failed to load notifications:', error);
    }
  };
  \<close>
\<close>

definition loadNotifications ::
  "NotificationsResponse awaited \<Rightarrow> ConsultationsPage \<Rightarrow> ConsultationsPage" where
  "loadNotifications response st =
     (if \<not> hasUser st then st
      else
        (case response of
           Resolved r \<Rightarrow>
             st\<lparr>notifications := (case resp_notifications r of Some ns \<Rightarrow> ns | None \<Rightarrow> []),
                unreadCount := (case resp_unreadCount r of Some n \<Rightarrow> n | None \<Rightarrow> 0)\<rparr>
         | _ \<Rightarrow> st\<lparr>console_errors := console_errors st @ [''Failed to load notifications:'']\<rparr>))"

text \<open>
  The poll: \<^verbatim>\<open>setInterval(() => { loadNotifications(); loadConsultations(); }, 30000)\<close>.
  \<^verbatim>\<open>loadConsultations\<close> writes \<^verbatim>\<open>consultations\<close> and \<^verbatim>\<open>isLoading\<close> only, which are left
  out of the record; a run of the poll is one \<^verbatim>\<open>loadNotifications\<close> per tick.
\<close>

definition poll :: "NotificationsResponse awaited list \<Rightarrow> ConsultationsPage \<Rightarrow> ConsultationsPage" where
  "poll responses st = foldl (\<lambda>s r. loadNotifications r s) st responses"

section \<open>JSON texts\<close>

text \<open>
  \<^verbatim>\<open>JSON.parse\<close> belongs to the platform. It is modelled by a recogniser of the JSON
  grammar (ECMA-404), one character at a time with a stack of the open arrays and objects;
  a text that the recogniser rejects makes \<^verbatim>\<open>JSON.parse\<close> throw a \<^verbatim>\<open>SyntaxError\<close>.
\<close>

datatype js_error = SyntaxError

datatype ctx = InArray | InObject

datatype mode =
    Value | ValueOrClose | KeyOrClose | Key | Colon | After
  | Str bool | Esc bool | Hex bool nat
  | Lit string
  | NumMinus | NumZero | NumInt | NumDot | NumFrac | NumExp | NumExpSign | NumExpDigits

definition is_ws :: "char \<Rightarrow> bool" where
  "is_ws c = (c = CHR '' '' \<or> c = CHR 0x09 \<or> c = CHR 0x0A \<or> c = CHR 0x0D)"

definition is_digit :: "char \<Rightarrow> bool" where
  "is_digit c = (c \<in> set ''0123456789'')"

definition is_hex :: "char \<Rightarrow> bool" where
  "is_hex c = (c \<in> set ''0123456789abcdefABCDEF'')"

text \<open>The first character of a value.\<close>

definition value_start :: "ctx list \<Rightarrow> char \<Rightarrow> (mode \<times> ctx list) option" where
  "value_start stk c =
     (if c = CHR ''{'' then Some (KeyOrClose, InObject # stk)
      else if c = CHR ''['' then Some (ValueOrClose, InArray # stk)
      else if c = CHR 0x22 then Some (Str False, stk)
      else if c = CHR ''-'' then Some (NumMinus, stk)
      else if c = CHR ''0'' then Some (NumZero, stk)
      else if is_digit c then Some (NumInt, stk)
      else if c = CHR ''t'' then Some (Lit ''rue'', stk)
      else if c = CHR ''f'' then Some (Lit ''alse'', stk)
      else if c = CHR ''n'' then Some (Lit ''ull'', stk)
      else None)"

text \<open>The character after a complete value.\<close>

definition after_value :: "ctx list \<Rightarrow> char \<Rightarrow> (mode \<times> ctx list) option" where
  "after_value stk c =
     (if is_ws c then Some (After, stk)
      else if c = CHR '','' then
        (case stk of InArray # _ \<Rightarrow> Some (Value, stk) | InObject # _ \<Rightarrow> Some (Key, stk) | [] \<Rightarrow> None)
      else if c = CHR '']'' then
        (case stk of InArray # rest \<Rightarrow> Some (After, rest) | _ \<Rightarrow> None)
      else if c = CHR ''}'' then
        (case stk of InObject # rest \<Rightarrow> Some (After, rest) | _ \<Rightarrow> None)
      else None)"

text \<open>The end of a string: a key is followed by its colon, a value is complete.\<close>

definition string_end :: "bool \<Rightarrow> mode" where
  "string_end is_key = (if is_key then Colon else After)"

fun step :: "mode \<Rightarrow> ctx list \<Rightarrow> char \<Rightarrow> (mode \<times> ctx list) option" where
  "step Value stk c = (if is_ws c then Some (Value, stk) else value_start stk c)"
| "step ValueOrClose stk c =
     (if is_ws c then Some (ValueOrClose, stk)
      else if c = CHR '']'' then Some (After, tl stk)
      else value_start stk c)"
| "step KeyOrClose stk c =
     (if is_ws c then Some (KeyOrClose, stk)
      else if c = CHR ''}'' then Some (After, tl stk)
      else if c = CHR 0x22 then Some (Str True, stk)
      else None)"
| "step Key stk c =
     (if is_ws c then Some (Key, stk)
      else if c = CHR 0x22 then Some (Str True, stk)
      else None)"
| "step Colon stk c =
     (if is_ws c then Some (Colon, stk)
      else if c = CHR '':'' then Some (Value, stk)
      else None)"
| "step After stk c = after_value stk c"
| "step (Str k) stk c =
     (if c = CHR 0x22 then Some (string_end k, stk)
      else if c = CHR 0x5C then Some (Esc k, stk)
      else if (of_char c :: nat) < 0x20 then None
      else Some (Str k, stk))"
| "step (Esc k) stk c =
     (if c = CHR ''u'' then Some (Hex k 4, stk)
      else if c = CHR 0x22 \<or> c = CHR 0x5C \<or> c \<in> set ''/bfnrt'' then Some (Str k, stk)
      else None)"
| "step (Hex k n) stk c =
     (if is_hex c then Some (if n \<le> 1 then Str k else Hex k (n - 1), stk) else None)"
| "step (Lit rest) stk c =
     (case rest of
        [] \<Rightarrow> after_value stk c
      | d # ds \<Rightarrow> if c = d then Some (Lit ds, stk) else None)"
| "step NumMinus stk c =
     (if c = CHR ''0'' then Some (NumZero, stk) else if is_digit c then Some (NumInt, stk) else None)"
| "step NumZero stk c =
     (if c = CHR ''.'' then Some (NumDot, stk)
      else if c = CHR ''e'' \<or> c = CHR ''E'' then Some (NumExp, stk)
      else after_value stk c)"
| "step NumInt stk c =
     (if is_digit c then Some (NumInt, stk)
      else if c = CHR ''.'' then Some (NumDot, stk)
      else if c = CHR ''e'' \<or> c = CHR ''E'' then Some (NumExp, stk)
      else after_value stk c)"
| "step NumDot stk c = (if is_digit c then Some (NumFrac, stk) else None)"
| "step NumFrac stk c =
     (if is_digit c then Some (NumFrac, stk)
      else if c = CHR ''e'' \<or> c = CHR ''E'' then Some (NumExp, stk)
      else after_value stk c)"
| "step NumExp stk c =
     (if c = CHR ''+'' \<or> c = CHR ''-'' then Some (NumExpSign, stk)
      else if is_digit c then Some (NumExpDigits, stk)
      else None)"
| "step NumExpSign stk c = (if is_digit c then Some (NumExpDigits, stk) else None)"
| "step NumExpDigits stk c = (if is_digit c then Some (NumExpDigits, stk) else after_value stk c)"

text \<open>At the end of the text one value is complete and nothing is open.\<close>

definition accepting :: "mode \<Rightarrow> ctx list \<Rightarrow> bool" where
  "accepting m stk =
     (stk = [] \<and> (m = After \<or> m = Lit [] \<or> m = NumZero \<or> m = NumInt \<or> m = NumFrac \<or> m = NumExpDigits))"

fun run :: "mode \<Rightarrow> ctx list \<Rightarrow> string \<Rightarrow> bool" where
  "run m stk [] = accepting m stk"
| "run m stk (c # cs) =
     (case step m stk c of None \<Rightarrow> False | Some (m', stk') \<Rightarrow> run m' stk' cs)"

definition is_json :: "string \<Rightarrow> bool" where
  "is_json text = run Value [] text"

text \<open>
  The value of a number literal is its digits times a power of ten; \<^verbatim>\<open>JSON.parse\<close> rounds
  it to the nearest double, ties to even, so the result is not zero exactly when the
  magnitude exceeds \<open>2 ^ -1075\<close>, half the least positive double.
\<close>

definition digits_value :: "string \<Rightarrow> int" where
  "digits_value ds = foldl (\<lambda>n d. 10 * n + (of_char d - 48)) 0 ds"

definition number_nonzero :: "string \<Rightarrow> bool" where
  "number_nonzero text =
     (let unsigned = (case text of c # r \<Rightarrow> if c = CHR ''-'' then r else text | [] \<Rightarrow> text);
          int_part = takeWhile is_digit unsigned;
          r1 = dropWhile is_digit unsigned;
          has_frac = (case r1 of c # _ \<Rightarrow> c = CHR ''.'' | [] \<Rightarrow> False);
          frac_part = (if has_frac then takeWhile is_digit (tl r1) else []);
          r2 = (if has_frac then dropWhile is_digit (tl r1) else r1);
          exponent =
            (case r2 of
               c # r \<Rightarrow>
                 if c = CHR ''e'' \<or> c = CHR ''E'' then
                   (case r of
                      sg # ds \<Rightarrow>
                        if sg = CHR ''-'' then - digits_value (takeWhile is_digit ds)
                        else if sg = CHR ''+'' then digits_value (takeWhile is_digit ds)
                        else digits_value (takeWhile is_digit r)
                    | [] \<Rightarrow> 0)
                 else 0
             | [] \<Rightarrow> 0);
          mantissa = digits_value (int_part @ frac_part);
          e10 = exponent - int (length frac_part)
      in mantissa \<noteq> 0 \<and> (0 \<le> e10 \<or> 10 ^ nat (- e10) < mantissa * 2 ^ 1075))"

text \<open>
  The truth value (\<^verbatim>\<open>!!v\<close>) of the value a JSON text denotes: \<^verbatim>\<open>null\<close>, \<^verbatim>\<open>false\<close>,
  zero and the empty string are falsy, everything else is truthy.
\<close>

definition text_truthy :: "string \<Rightarrow> bool" where
  "text_truthy text =
     (case dropWhile is_ws text of
        [] \<Rightarrow> False
      | c # cs \<Rightarrow>
          if c = CHR ''{'' \<or> c = CHR ''['' \<or> c = CHR ''t'' then True
          else if c = CHR ''f'' \<or> c = CHR ''n'' then False
          else if c = CHR 0x22 then (case cs of d # _ \<Rightarrow> d \<noteq> CHR 0x22 | [] \<Rightarrow> False)
          else number_nonzero (c # cs))"

text \<open>
  \<^verbatim>\<open>JSON.stringify\<close> of a string (\<^verbatim>\<open>QuoteJSONString\<close>): quotes around the characters, the
  quote, the backslash and the control characters escaped.
\<close>

definition hex_digit :: "nat \<Rightarrow> char" where
  "hex_digit n = ''0123456789abcdef'' ! (n mod 16)"

definition escape :: "char \<Rightarrow> string" where
  "escape c =
     (if c = CHR 0x22 then [CHR 0x5C, CHR 0x22]
      else if c = CHR 0x5C then [CHR 0x5C, CHR 0x5C]
      else if c = CHR 0x08 then [CHR 0x5C, CHR ''b'']
      else if c = CHR 0x09 then [CHR 0x5C, CHR ''t'']
      else if c = CHR 0x0A then [CHR 0x5C, CHR ''n'']
      else if c = CHR 0x0C then [CHR 0x5C, CHR ''f'']
      else if c = CHR 0x0D then [CHR 0x5C, CHR ''r'']
      else if (of_char c :: nat) < 0x20
        then [CHR 0x5C, CHR ''u'', CHR ''0'', CHR ''0'', hex_digit (of_char c div 16), hex_digit (of_char c)]
      else [c])"

definition quote :: "string \<Rightarrow> string" where
  "quote str = [CHR 0x22] @ concat (map escape str) @ [CHR 0x22]"

section \<open>Session store\<close>

text \<open>
  Source: \<^verbatim>\<open>src/frontend/lib/auth-context.tsx\<close>. The record fields carry the prefix
  \<open>user_\<close>, \<open>patient_\<close> or \<open>doctor_\<close> before the property name of the source.
\<close>

datatype UserType = patient | doctor

definition UserType_string :: "UserType \<Rightarrow> string" where
  "UserType_string t = (case t of patient \<Rightarrow> ''patient'' | doctor \<Rightarrow> ''doctor'')"

record User =
  user_id :: string
  user_name :: string
  user_email :: string
  user_type :: "UserType option"
  user_specialization :: "string option"
  user_phone :: "string option"

record DemoPatient =
  patient_id :: string
  patient_name :: string
  patient_email :: string
  patient_password :: string
  patient_phone :: string

record DemoDoctor =
  doctor_id :: string
  doctor_name :: string
  doctor_email :: string
  doctor_password :: string
  doctor_specialization :: string

definition DEMO_PATIENTS :: "DemoPatient list" where
  "DEMO_PATIENTS =
     [\<lparr>patient_id = ''1'', patient_name = ''John Doe'', patient_email = ''patient@demo.com'',
       patient_password = ''patient123'', patient_phone = ''+91 98765 43210''\<rparr>,
      \<lparr>patient_id = ''2'', patient_name = ''Sarah Smith'', patient_email = ''sarah@demo.com'',
       patient_password = ''demo123'', patient_phone = ''+91 98765 43211''\<rparr>]"

definition DEMO_DOCTORS :: "DemoDoctor list" where
  "DEMO_DOCTORS =
     [\<lparr>doctor_id = ''1'', doctor_name = ''Dr. Ramesh Kumar'', doctor_email = ''doctor@demo.com'',
       doctor_password = ''doctor123'', doctor_specialization = ''General Physician''\<rparr>,
      \<lparr>doctor_id = ''2'', doctor_name = ''Dr. Priya Sharma'', doctor_email = ''drpriya@demo.com'',
       doctor_password = ''demo123'', doctor_specialization = ''Dermatologist''\<rparr>]"

text \<open>
  The state variable \<^verbatim>\<open>user\<close> holds \<^verbatim>\<open>null\<close>, an object that \<^verbatim>\<open>login\<close> built, or
  whatever \<^verbatim>\<open>JSON.parse\<close> returned for a stored text (the annotation \<^verbatim>\<open>User | null\<close> is
  not checked at run time). A parsed value is represented by the text it was parsed from.
\<close>

datatype js_value = Null | UserObject User | Parsed string

definition truthy :: "js_value \<Rightarrow> bool" where
  "truthy v = (case v of Null \<Rightarrow> False | UserObject _ \<Rightarrow> True | Parsed text \<Rightarrow> text_truthy text)"

text \<open>The one JSON text that begins with \<^verbatim>\<open>n\<close> is the literal \<^verbatim>\<open>null\<close>.\<close>

definition denotes_null :: "string \<Rightarrow> bool" where
  "denotes_null text = (case dropWhile is_ws text of c # _ \<Rightarrow> c = CHR ''n'' | [] \<Rightarrow> False)"

definition JSON_parse :: "string \<Rightarrow> js_error + js_value" where
  "JSON_parse text =
     (if \<not> is_json text then Inl SyntaxError
      else if denotes_null text then Inr Null
      else Inr (Parsed text))"

text \<open>
  \<^verbatim>\<open>JSON.stringify(userData)\<close>: the properties in the order of the object literal, a
  property whose value is \<^verbatim>\<open>undefined\<close> left out.
\<close>

definition JSON_stringify :: "User \<Rightarrow> string" where
  \<open>JSON_stringify u =
     ''{"id":'' @ quote (user_id u) @
     '',"name":'' @ quote (user_name u) @
     '',"email":'' @ quote (user_email u) @
     '',"type":'' @ (case user_type u of None \<Rightarrow> ''null'' | Some t \<Rightarrow> quote (UserType_string t)) @
     (case user_specialization u of None \<Rightarrow> [] | Some sp \<Rightarrow> '',"specialization":'' @ quote sp) @
     (case user_phone u of None \<Rightarrow> [] | Some ph \<Rightarrow> '',"phone":'' @ quote ph) @
     ''}''\<close>

text \<open>
  The state of \<^verbatim>\<open>AuthProvider\<close> and the two keys of \<^verbatim>\<open>localStorage\<close> it uses.
  \<^verbatim>\<open>userType\<close> is a string at run time (\<^verbatim>\<open>savedType as UserType\<close> casts any stored text).
\<close>

record AuthState =
  user :: js_value
  userType :: "string option"
  isLoading :: bool
  localStorage :: "string \<rightharpoonup> string"

definition initial :: "(string \<rightharpoonup> string) \<Rightarrow> AuthState" where
  "initial storage = \<lparr>user = Null, userType = None, isLoading = True, localStorage = storage\<rparr>"

definition isAuthenticated :: "AuthState \<Rightarrow> bool" where
  "isAuthenticated st = truthy (user st)"

text \<open>How an effect or a handler ends, and the state it leaves.\<close>

datatype completion = Returns AuthState | Throws js_error AuthState

text \<open>
  \<^verbatim>\<open>
  useEffect(() => {
    const savedUser = localStorage.getItem('user');
    const savedType = localStorage.getItem('userType');
    if (savedUser && savedType) {
      setUser(JSON.parse(savedUser));
      setUserType(savedType as UserType);
    }
    setIsLoading(false);
  }, []);
  \<close>
  A stored text is truthy unless it is empty. \<^verbatim>\<open>JSON.parse\<close> is evaluated before any
  setter is called, so an exception leaves the state as it was.
\<close>

definition restore :: "AuthState \<Rightarrow> completion" where
  "restore st =
     (case (localStorage st ''user'', localStorage st ''userType'') of
        (Some savedUser, Some savedType) \<Rightarrow>
          if savedUser \<noteq> [] \<and> savedType \<noteq> [] then
            (case JSON_parse savedUser of
               Inl e \<Rightarrow> Throws e st
             | Inr v \<Rightarrow> Returns (st\<lparr>user := v, userType := Some savedType, isLoading := False\<rparr>))
          else Returns (st\<lparr>isLoading := False\<rparr>)
      | _ \<Rightarrow> Returns (st\<lparr>isLoading := False\<rparr>))"

text \<open>
  \<^verbatim>\<open>
  const login = async (email, password, type) => {
    await new Promise(resolve => setTimeout(resolve, 500));
    if (type === 'patient') {
      const patient = DEMO_PATIENTS.find(p => p.email === email && p.password === password);
      if (patient) {
        const userData: User = { id: patient.id, name: patient.name, email: patient.email,
                                 type: 'patient', phone: patient.phone };
        setUser(userData); setUserType('patient');
        localStorage.setItem('user', JSON.stringify(userData));
        localStorage.setItem('userType', 'patient');
        return true;
      }
    } else if (type === 'doctor') { ... the same over DEMO_DOCTORS, with specialization ... }
    return false;
  };
  \<close>
  The result is the returned boolean and the state after the call.
\<close>

definition login :: "AuthState \<Rightarrow> string \<Rightarrow> string \<Rightarrow> UserType option \<Rightarrow> bool \<times> AuthState" where
  "login st email password type =
     (if type = Some patient then
        (case find (\<lambda>p. patient_email p = email \<and> patient_password p = password) DEMO_PATIENTS of
           Some p \<Rightarrow>
             (let userData = \<lparr>user_id = patient_id p, user_name = patient_name p,
                              user_email = patient_email p, user_type = Some patient,
                              user_specialization = None, user_phone = Some (patient_phone p)\<rparr>
              in (True, st\<lparr>user := UserObject userData, userType := Some ''patient'',
                          localStorage := (localStorage st)
                            (''user'' \<mapsto> JSON_stringify userData, ''userType'' \<mapsto> ''patient'')\<rparr>))
         | None \<Rightarrow> (False, st))
      else if type = Some doctor then
        (case find (\<lambda>d. doctor_email d = email \<and> doctor_password d = password) DEMO_DOCTORS of
           Some d \<Rightarrow>
             (let userData = \<lparr>user_id = doctor_id d, user_name = doctor_name d,
                              user_email = doctor_email d, user_type = Some doctor,
                              user_specialization = Some (doctor_specialization d), user_phone = None\<rparr>
              in (True, st\<lparr>user := UserObject userData, userType := Some ''doctor'',
                          localStorage := (localStorage st)
                            (''user'' \<mapsto> JSON_stringify userData, ''userType'' \<mapsto> ''doctor'')\<rparr>))
         | None \<Rightarrow> (False, st))
      else (False, st))"

text \<open>
  \<^verbatim>\<open>
  const logout = () => {
    setUser(null); setUserType(null);
    localStorage.removeItem('user'); localStorage.removeItem('userType');
  };
  \<close>
\<close>

definition logout :: "AuthState \<Rightarrow> AuthState" where
  "logout st =
     st\<lparr>user := Null, userType := None,
        localStorage := (localStorage st)(''user'' := None, ''userType'' := None)\<rparr>"

text \<open>The type of the active user: \<^verbatim>\<open>user.type\<close> of an object that \<^verbatim>\<open>login\<close> built.\<close>

definition active_user_type :: "AuthState \<Rightarrow> UserType option" where
  "active_user_type st = (case user st of UserObject u \<Rightarrow> user_type u | _ \<Rightarrow> None)"

section \<open>Properties of the cart\<close>

lemma first_occurrences_set: "set (first_occurrences xs) = set xs"
  by (induction xs) auto

lemma first_occurrences_distinct: "distinct (first_occurrences xs)"
  by (induction xs) (auto simp: first_occurrences_set)

lemma first_occurrences_snoc:
  "first_occurrences (xs @ [x]) =
     (if x \<in> set xs then first_occurrences xs else first_occurrences xs @ [x])"
  by (induction xs) auto

lemma addToCart_present:
  assumes "id' medicine \<in> set (map id' items)"
  shows "addToCart items medicine =
     map (\<lambda>m. if id' m = id' medicine then m\<lparr>quantity := quantity m + 1\<rparr> else m) items"
  using assms by (auto simp: addToCart_def find_None_iff split: option.splits)

lemma addToCart_absent:
  assumes "id' medicine \<notin> set (map id' items)"
  shows "addToCart items medicine = items @ [with_quantity_1 medicine]"
proof -
  from assms have "\<forall>m\<in>set items. id' m \<noteq> id' medicine" by force
  then have "find (\<lambda>m. id' m = id' medicine) items = None" by (simp add: find_None_iff)
  then show ?thesis by (simp add: addToCart_def)
qed

lemma map_id_increment:
  "map id' (map (\<lambda>m. if id' m = i then m\<lparr>quantity := quantity m + 1\<rparr> else m) items) = map id' items"
  by (induction items) auto

lemma addToCart_ids:
  "map id' (addToCart items medicine) =
     (if id' medicine \<in> set (map id' items) then map id' items else map id' items @ [id' medicine])"
proof (cases "id' medicine \<in> set (map id' items)")
  case True
  then show ?thesis by (simp only: addToCart_present map_id_increment if_True)
next
  case False
  then show ?thesis by (simp add: addToCart_absent with_quantity_1_def)
qed

lemma addMedicineParam_update_eq: "addMedicineParam_update medicine items = addToCart items medicine"
  by (simp add: addMedicineParam_update_def addToCart_def)

lemma add_all_snoc: "add_all items (ms @ [m]) = addToCart (add_all items ms) m"
  by (simp add: add_all_def)

lemma add_all_ids: "map id' (add_all [] ms) = first_occurrences (map id' ms)"
proof (induction ms rule: rev_induct)
  case Nil
  show ?case by (simp add: add_all_def)
next
  case (snoc m ms)
  have "set (map id' (add_all [] ms)) = set (map id' ms)"
    by (simp only: snoc.IH first_occurrences_set)
  then show ?case
    by (simp add: add_all_snoc addToCart_ids snoc.IH first_occurrences_snoc del: set_map)
qed

lemma add_all_id_set: "set (map id' (add_all [] ms)) = set (map id' ms)"
  by (simp only: add_all_ids first_occurrences_set)

lemma add_all_quantity:
  "c \<in> set (add_all [] ms) \<Longrightarrow> quantity c = int (count_list (map id' ms) (id' c))"
proof (induction ms arbitrary: c rule: rev_induct)
  case Nil
  then show ?case by (simp add: add_all_def)
next
  case (snoc m ms)
  let ?items = "add_all [] ms"
  show ?case
  proof (cases "id' m \<in> set (map id' ?items)")
    case True
    with snoc.prems obtain d where d: "d \<in> set ?items"
      and c: "c = (if id' d = id' m then d\<lparr>quantity := quantity d + 1\<rparr> else d)"
      by (auto simp: add_all_snoc addToCart_present)
    from snoc.IH [OF d] c show ?thesis by auto
  next
    case False
    with snoc.prems have "c \<in> set ?items \<or> c = with_quantity_1 m"
      by (auto simp: add_all_snoc addToCart_absent)
    then show ?thesis
    proof
      assume c: "c \<in> set ?items"
      then have "id' c \<in> set (map id' ?items)" by simp
      with False have "id' c \<noteq> id' m" by auto
      with snoc.IH [OF c] show ?thesis by simp
    next
      assume c: "c = with_quantity_1 m"
      from False have "id' m \<notin> set (map id' ms)" by (simp only: add_all_id_set not_False_eq_True)
      then have "count_list (map id' ms) (id' m) = 0"
        by (simp only: count_list_0_iff not_False_eq_True)
      with c show ?thesis by (simp add: with_quantity_1_def)
    qed
  qed
qed

lemma addToCart_positive:
  "\<forall>m\<in>set items. 0 < quantity m \<Longrightarrow> \<forall>m\<in>set (addToCart items medicine). 0 < quantity m"
  by (auto simp: addToCart_def with_quantity_1_def split: option.splits)

lemma updateQuantity_positive:
  "\<forall>m\<in>set items. 0 < quantity m \<Longrightarrow> \<forall>m\<in>set (updateQuantity items i qty). 0 < quantity m"
  by (auto simp: updateQuantity_def)

lemma run_cart_ops_positive:
  "\<forall>m\<in>set items. 0 < quantity m \<Longrightarrow> \<forall>m\<in>set (run_cart_ops items ops). 0 < quantity m"
proof (induction ops arbitrary: items)
  case Nil
  then show ?case by (simp add: run_cart_ops_def)
next
  case (Cons a ops)
  have "\<forall>m\<in>set (apply_cart_op items a). 0 < quantity m"
    by (cases a) (use Cons.prems addToCart_positive updateQuantity_positive in auto)
  from Cons.IH [OF this] show ?case by (simp add: run_cart_ops_def)
qed

lemma updateQuantity_absent: "i \<notin> set (map id' items) \<Longrightarrow> updateQuantity items i qty = items"
  by (induction items) (auto simp: updateQuantity_def)

text \<open>
  C1. Adding the medicines of any list to the empty cart, one \<^verbatim>\<open>addToCart\<close> after the
  other, gives a cart with one row per distinct identifier, in the order in which the
  identifiers were first added; the quantity of a row is the number of times its identifier
  was added. One more addition of an identifier already added leaves every row in its place
  and increments that row only; an identifier not yet added gets a new last row of quantity
  1. The update of the \<^verbatim>\<open>addMedicine\<close> URL-parameter effect is the same function.
\<close>

theorem addItem_sequence:
  fixes medicines :: "Medicine list"
  shows "distinct (map id' (add_all [] medicines))
    \<and> set (map id' (add_all [] medicines)) = set (map id' medicines)
    \<and> map id' (add_all [] medicines) = first_occurrences (map id' medicines)
    \<and> (\<forall>item\<in>set (add_all [] medicines).
          quantity item = int (count_list (map id' medicines) (id' item)))
    \<and> (\<forall>m::Medicine. id' m \<in> set (map id' medicines) \<longrightarrow>
          add_all [] (medicines @ [m]) =
            map (\<lambda>item. if id' item = id' m then item\<lparr>quantity := quantity item + 1\<rparr> else item)
              (add_all [] medicines)
          \<and> map id' (add_all [] (medicines @ [m])) = map id' (add_all [] medicines))
    \<and> (\<forall>m::Medicine. id' m \<notin> set (map id' medicines) \<longrightarrow>
          add_all [] (medicines @ [m]) = add_all [] medicines @ [with_quantity_1 m])
    \<and> (\<forall>(m::Medicine) items. addMedicineParam_update m items = addToCart items m)"
proof -
  have ids: "map id' (add_all [] medicines) = first_occurrences (map id' medicines)"
    by (rule add_all_ids)
  have "distinct (map id' (add_all [] medicines))"
    by (simp only: ids first_occurrences_distinct)
  moreover have "set (map id' (add_all [] medicines)) = set (map id' medicines)"
    by (rule add_all_id_set)
  moreover have "\<forall>item\<in>set (add_all [] medicines).
      quantity item = int (count_list (map id' medicines) (id' item))"
    using add_all_quantity by blast
  moreover have "add_all [] (medicines @ [m]) =
        map (\<lambda>item. if id' item = id' m then item\<lparr>quantity := quantity item + 1\<rparr> else item)
          (add_all [] medicines)
      \<and> map id' (add_all [] (medicines @ [m])) = map id' (add_all [] medicines)"
    if "id' m \<in> set (map id' medicines)" for m :: Medicine
  proof -
    from that have "id' m \<in> set (map id' (add_all [] medicines))"
      by (simp only: add_all_id_set)
    then show ?thesis
      by (simp only: add_all_snoc addToCart_present map_id_increment simp_thms)
  qed
  moreover have "add_all [] (medicines @ [m]) = add_all [] medicines @ [with_quantity_1 m]"
    if "id' m \<notin> set (map id' medicines)" for m :: Medicine
  proof -
    from that have "id' m \<notin> set (map id' (add_all [] medicines))"
      by (simp only: add_all_id_set not_False_eq_True)
    then have "addToCart (add_all [] medicines) m = add_all [] medicines @ [with_quantity_1 m]"
      by (rule addToCart_absent)
    then show ?thesis by (simp only: add_all_snoc)
  qed
  moreover have "\<forall>(m::Medicine) items. addMedicineParam_update m items = addToCart items m"
    by (simp add: addMedicineParam_update_eq)
  ultimately show ?thesis using ids by blast
qed

theorem addItem_sequence_witness:
  "add_all [] [\<lparr>id' = 1, name = ''A'', price = 5 / 2\<rparr>, \<lparr>id' = 2, name = ''B'', price = 3\<rparr>,
               \<lparr>id' = 1, name = ''A'', price = 5 / 2\<rparr>]
     = [\<lparr>id' = 1, name = ''A'', price = 5 / 2, quantity = 2\<rparr>,
        \<lparr>id' = 2, name = ''B'', price = 3, quantity = 1\<rparr>]
   \<and> \<lparr>id' = 1, name = ''A'', price = 5 / 2, quantity = 2\<rparr>
       \<in> set (add_all [] [\<lparr>id' = 1, name = ''A'', price = 5 / 2\<rparr>, \<lparr>id' = 2, name = ''B'', price = 3\<rparr>,
               \<lparr>id' = 1, name = ''A'', price = 5 / 2\<rparr>])
   \<and> quantity \<lparr>id' = 1, name = ''A'', price = 5 / 2, quantity = 2\<rparr> = int (count_list [1, 2, 1 :: int] 1)
   \<and> (2::int) \<in> set [1, 2, 1]
   \<and> map id' (add_all [] ([\<lparr>id' = 1, name = ''A'', price = 5 / 2\<rparr>, \<lparr>id' = 2, name = ''B'', price = 3\<rparr>,
               \<lparr>id' = 1, name = ''A'', price = 5 / 2\<rparr>] @ [\<lparr>id' = 2, name = ''B'', price = 3\<rparr>])) = [1, 2]
   \<and> (3::int) \<notin> set [1, 2, 1]
   \<and> add_all [] ([\<lparr>id' = 1, name = ''A'', price = 5 / 2\<rparr>, \<lparr>id' = 2, name = ''B'', price = 3\<rparr>,
               \<lparr>id' = 1, name = ''A'', price = 5 / 2\<rparr>] @ [\<lparr>id' = 3, name = ''C'', price = 1\<rparr>])
     = [\<lparr>id' = 1, name = ''A'', price = 5 / 2, quantity = 2\<rparr>,
        \<lparr>id' = 2, name = ''B'', price = 3, quantity = 1\<rparr>,
        \<lparr>id' = 3, name = ''C'', price = 1, quantity = 1\<rparr>]"
proof -
  let ?ms = "[\<lparr>id' = 1, name = ''A'', price = 5 / 2\<rparr>, \<lparr>id' = 2, name = ''B'', price = 3\<rparr>,
               \<lparr>id' = 1, name = ''A'', price = 5 / 2\<rparr>]"
  have cart: "add_all [] ?ms = [\<lparr>id' = 1, name = ''A'', price = 5 / 2, quantity = 2\<rparr>,
        \<lparr>id' = 2, name = ''B'', price = 3, quantity = 1\<rparr>]"
    by (simp add: add_all_def addToCart_def with_quantity_1_def)
  have ids: "map id' ?ms = [1, 2, 1]" by simp
  note inst = addItem_sequence [of ?ms, unfolded ids cart]
  from inst have q: "\<forall>item\<in>set [\<lparr>id' = 1, name = ''A'', price = 5 / 2, quantity = 2\<rparr>,
        \<lparr>id' = 2, name = ''B'', price = 3, quantity = 1\<rparr>].
          quantity item = int (count_list [1, 2, 1] (id' item))" by blast
  from inst have present: "\<forall>m::Medicine. id' m \<in> set [1, 2, 1] \<longrightarrow>
      map id' (add_all [] (?ms @ [m])) = map id' [\<lparr>id' = 1, name = ''A'', price = 5 / 2, quantity = 2\<rparr>,
        \<lparr>id' = 2, name = ''B'', price = 3, quantity = 1\<rparr>]" by blast
  from inst have absent: "\<forall>m::Medicine. id' m \<notin> set [1, 2, 1] \<longrightarrow>
      add_all [] (?ms @ [m]) = [\<lparr>id' = 1, name = ''A'', price = 5 / 2, quantity = 2\<rparr>,
        \<lparr>id' = 2, name = ''B'', price = 3, quantity = 1\<rparr>] @ [with_quantity_1 m]" by blast
  show ?thesis
    using cart q present [rule_format, of "\<lparr>id' = 2, name = ''B'', price = 3\<rparr>"]
      absent [rule_format, of "\<lparr>id' = 3, name = ''C'', price = 1\<rparr>"]
    by (simp add: with_quantity_1_def)
qed

lemma updateQuantity_remove_ids:
  "qty < 1 \<Longrightarrow> i \<notin> set (map id' (updateQuantity items i qty))"
  by (auto simp: updateQuantity_def)

lemma updateQuantity_others:
  "filter (\<lambda>m. id' m \<noteq> i) (updateQuantity items i qty) = filter (\<lambda>m. id' m \<noteq> i) items"
  by (induction items) (auto simp: updateQuantity_def)

lemma updateQuantity_set_nth:
  "1 \<le> qty \<Longrightarrow> k < length items \<Longrightarrow>
   updateQuantity items i qty ! k =
     (if id' (items ! k) = i then (items ! k)\<lparr>quantity := qty\<rparr> else items ! k)"
  by (simp add: updateQuantity_def)

text \<open>
  C3. \<^verbatim>\<open>updateQuantity(id, qty)\<close> with \<open>qty < 1\<close> leaves no row with that identifier and
  keeps the other rows as they are, in their order; with \<open>1 \<le> qty\<close> it keeps every row in
  its place and sets the quantity of the rows with that identifier to \<open>qty\<close>; when no row
  has the identifier the cart is returned unchanged. Every row of a cart reached from the
  empty cart by \<^verbatim>\<open>addToCart\<close> and \<^verbatim>\<open>updateQuantity\<close> steps has a positive quantity.
\<close>

theorem setQuantity_contract:
  "(qty < 1 \<longrightarrow>
      i \<notin> set (map id' (updateQuantity items i qty))
      \<and> filter (\<lambda>m. id' m \<noteq> i) (updateQuantity items i qty) = filter (\<lambda>m. id' m \<noteq> i) items
      \<and> updateQuantity items i qty = filter (\<lambda>m. id' m \<noteq> i) items)
   \<and> (1 \<le> qty \<longrightarrow>
      length (updateQuantity items i qty) = length items
      \<and> (\<forall>k<length items. updateQuantity items i qty ! k =
            (if id' (items ! k) = i then (items ! k)\<lparr>quantity := qty\<rparr> else items ! k)))
   \<and> (i \<notin> set (map id' items) \<longrightarrow> updateQuantity items i qty = items)
   \<and> (\<forall>m\<in>set (run_cart_ops [] ops). 0 < quantity m)"
proof -
  have "qty < 1 \<longrightarrow> updateQuantity items i qty = filter (\<lambda>m. id' m \<noteq> i) items"
    by (simp add: updateQuantity_def)
  moreover have "1 \<le> qty \<longrightarrow> length (updateQuantity items i qty) = length items"
    by (simp add: updateQuantity_def)
  moreover have "\<forall>m\<in>set (run_cart_ops [] ops). 0 < quantity m"
    by (rule run_cart_ops_positive) simp
  ultimately show ?thesis
    using updateQuantity_remove_ids [of qty i items] updateQuantity_others [of i items qty]
      updateQuantity_set_nth [of qty _ items i] updateQuantity_absent [of i items qty]
    by blast
qed

theorem setQuantity_contract_witness:
  "(0::int) < 1
   \<and> updateQuantity [\<lparr>id' = 1, name = ''A'', price = 5 / 2, quantity = 2\<rparr>,
                     \<lparr>id' = 2, name = ''B'', price = 3, quantity = 1\<rparr>] 1 0
       = [\<lparr>id' = 2, name = ''B'', price = 3, quantity = 1\<rparr>]
   \<and> (1::int) \<le> 5
   \<and> updateQuantity [\<lparr>id' = 1, name = ''A'', price = 5 / 2, quantity = 2\<rparr>,
                     \<lparr>id' = 2, name = ''B'', price = 3, quantity = 1\<rparr>] 2 5 ! 1
       = \<lparr>id' = 2, name = ''B'', price = 3, quantity = 5\<rparr>
   \<and> (7::int) \<notin> set (map id' [\<lparr>id' = 1, name = ''A'', price = 5 / 2, quantity = 2\<rparr>,
                     \<lparr>id' = 2, name = ''B'', price = 3, quantity = 1\<rparr>])
   \<and> updateQuantity [\<lparr>id' = 1, name = ''A'', price = 5 / 2, quantity = 2\<rparr>,
                     \<lparr>id' = 2, name = ''B'', price = 3, quantity = 1\<rparr>] 7 0
       = [\<lparr>id' = 1, name = ''A'', price = 5 / 2, quantity = 2\<rparr>,
          \<lparr>id' = 2, name = ''B'', price = 3, quantity = 1\<rparr>]
   \<and> \<lparr>id' = 1, name = ''A'', price = 5 / 2, quantity = 3\<rparr>
       \<in> set (run_cart_ops [] [AddItem \<lparr>id' = 1, name = ''A'', price = 5 / 2\<rparr>,
             AddItem \<lparr>id' = 2, name = ''B'', price = 3\<rparr>, SetQuantity 1 3, SetQuantity 2 0])
   \<and> 0 < quantity \<lparr>id' = 1, name = ''A'', price = 5 / 2, quantity = 3\<rparr>"
proof -
  let ?items = "[\<lparr>id' = 1, name = ''A'', price = 5 / 2, quantity = 2\<rparr>,
                 \<lparr>id' = 2, name = ''B'', price = 3, quantity = 1\<rparr>]"
  let ?ops = "[AddItem \<lparr>id' = 1, name = ''A'', price = 5 / 2\<rparr>,
             AddItem \<lparr>id' = 2, name = ''B'', price = 3\<rparr>, SetQuantity 1 3, SetQuantity 2 0]"
  have run: "run_cart_ops [] ?ops = [\<lparr>id' = 1, name = ''A'', price = 5 / 2, quantity = 3\<rparr>]"
    by (simp add: run_cart_ops_def addToCart_def updateQuantity_def with_quantity_1_def)
  have remove: "updateQuantity ?items 1 0 = filter (\<lambda>m. id' m \<noteq> 1) ?items"
    using setQuantity_contract [of 0 1 ?items ?ops] by simp
  have set_qty: "updateQuantity ?items 2 5 ! 1 =
      (if id' (?items ! 1) = 2 then (?items ! 1)\<lparr>quantity := 5\<rparr> else ?items ! 1)"
    using setQuantity_contract [of 5 2 ?items ?ops] by simp
  have absent: "updateQuantity ?items 7 0 = ?items"
    using setQuantity_contract [of 0 7 ?items ?ops] by simp
  have positive: "\<forall>m\<in>set (run_cart_ops [] ?ops). 0 < quantity m"
    using setQuantity_contract [of 0 7 ?items ?ops] by blast
  show ?thesis
    using remove set_qty absent positive run by simp
qed

section \<open>Properties of the checkout\<close>

lemma handlePlaceOrder_cart: "cart (handlePlaceOrder st) = cart st"
  by (simp add: handlePlaceOrder_def)

text \<open>
  C4, as the specification states it, fails: with a cart that is not empty and no phone,
  the error shown is \<^verbatim>\<open>Fill all fields\<close>, the very message shown when the address is
  missing instead; the word phone does not occur in it.
\<close>

theorem checkout_names_phone_counterexample:
  "toasts (handlePlaceOrder
      \<lparr>cart = [\<lparr>id' = 1, name = ''A'', price = 5 / 2, quantity = 2\<rparr>],
       address = ''12 Main Street'', phone = [], showDialog = False, loggedIn = True,
       toasts = [], route = None\<rparr>) = [Toast_error ''Fill all fields'']
   \<and> \<not> names_field ''Fill all fields'' ''phone''
   \<and> toasts (handlePlaceOrder
      \<lparr>cart = [\<lparr>id' = 1, name = ''A'', price = 5 / 2, quantity = 2\<rparr>],
       address = [], phone = ''+91 98765 43210'', showDialog = False, loggedIn = True,
       toasts = [], route = None\<rparr>) = [Toast_error ''Fill all fields'']"
  by (simp add: handlePlaceOrder_def names_field_def to_lower_def sublist_Cons_right)

text \<open>
  C4, amended. With an empty cart \<^verbatim>\<open>handlePlaceOrder\<close> shows the error \<^verbatim>\<open>Cart is empty\<close>
  and changes nothing else; with a cart that is not empty and no phone, or no address,
  entered it shows the one error \<^verbatim>\<open>Fill all fields\<close>, whichever field is missing, and
  changes nothing else. The cart is the same after it in every case.
\<close>

theorem checkout_validation:
  "(cart st = [] \<longrightarrow>
      handlePlaceOrder st = st\<lparr>toasts := toasts st @ [Toast_error ''Cart is empty'']\<rparr>)
   \<and> (cart st \<noteq> [] \<and> (address st = [] \<or> phone st = []) \<longrightarrow>
      handlePlaceOrder st = st\<lparr>toasts := toasts st @ [Toast_error ''Fill all fields'']\<rparr>)
   \<and> cart (handlePlaceOrder st) = cart st"
  by (simp add: handlePlaceOrder_def)

theorem checkout_validation_witness:
  "cart \<lparr>cart = [], address = ''12 Main Street'', phone = ''+91 98765 43210'',
         showDialog = False, loggedIn = True, toasts = [], route = None\<rparr> = []
   \<and> handlePlaceOrder \<lparr>cart = [], address = ''12 Main Street'', phone = ''+91 98765 43210'',
         showDialog = False, loggedIn = True, toasts = [], route = None\<rparr>
      = \<lparr>cart = [], address = ''12 Main Street'', phone = ''+91 98765 43210'',
         showDialog = False, loggedIn = True, toasts = [Toast_error ''Cart is empty''], route = None\<rparr>
   \<and> phone \<lparr>cart = [\<lparr>id' = 1, name = ''A'', price = 5 / 2, quantity = 2\<rparr>],
         address = ''12 Main Street'', phone = [],
         showDialog = False, loggedIn = True, toasts = [], route = None\<rparr> = []
   \<and> handlePlaceOrder \<lparr>cart = [\<lparr>id' = 1, name = ''A'', price = 5 / 2, quantity = 2\<rparr>],
         address = ''12 Main Street'', phone = [],
         showDialog = False, loggedIn = True, toasts = [], route = None\<rparr>
      = \<lparr>cart = [\<lparr>id' = 1, name = ''A'', price = 5 / 2, quantity = 2\<rparr>],
         address = ''12 Main Street'', phone = [],
         showDialog = False, loggedIn = True, toasts = [Toast_error ''Fill all fields''], route = None\<rparr>
   \<and> address \<lparr>cart = [\<lparr>id' = 1, name = ''A'', price = 5 / 2, quantity = 2\<rparr>],
         address = [], phone = ''+91 98765 43210'',
         showDialog = False, loggedIn = True, toasts = [], route = None\<rparr> = []
   \<and> handlePlaceOrder \<lparr>cart = [\<lparr>id' = 1, name = ''A'', price = 5 / 2, quantity = 2\<rparr>],
         address = [], phone = ''+91 98765 43210'',
         showDialog = False, loggedIn = True, toasts = [], route = None\<rparr>
      = \<lparr>cart = [\<lparr>id' = 1, name = ''A'', price = 5 / 2, quantity = 2\<rparr>],
         address = [], phone = ''+91 98765 43210'',
         showDialog = False, loggedIn = True, toasts = [Toast_error ''Fill all fields''], route = None\<rparr>"
  using
    checkout_validation [of "\<lparr>cart = [], address = ''12 Main Street'', phone = ''+91 98765 43210'',
         showDialog = False, loggedIn = True, toasts = [], route = None\<rparr>"]
    checkout_validation [of "\<lparr>cart = [\<lparr>id' = 1, name = ''A'', price = 5 / 2, quantity = 2\<rparr>],
         address = ''12 Main Street'', phone = [],
         showDialog = False, loggedIn = True, toasts = [], route = None\<rparr>"]
    checkout_validation [of "\<lparr>cart = [\<lparr>id' = 1, name = ''A'', price = 5 / 2, quantity = 2\<rparr>],
         address = [], phone = ''+91 98765 43210'',
         showDialog = False, loggedIn = True, toasts = [], route = None\<rparr>"]
  by simp

text \<open>
  C5. \<^verbatim>\<open>confirmOrder\<close> empties the cart when a user is logged in and the response has a
  truthy \<^verbatim>\<open>success\<close>; in every other case (nobody logged in, a rejected request, a
  \<^verbatim>\<open>null\<close> body, a response without success) the cart is what it was, and so it is after
  the validation of \<^verbatim>\<open>handlePlaceOrder\<close>. The cart after a checkout is never anything
  but the empty cart or the cart before it.
\<close>

theorem checkout_atomic:
  "(loggedIn st \<and> success r \<longrightarrow> cart (confirmOrder (Resolved r) st) = [])
   \<and> (\<not> success r \<longrightarrow> confirmOrder (Resolved r) st = (if loggedIn st then st
          else st\<lparr>toasts := toasts st @ [Toast_error ''User not logged in'']\<rparr>))
   \<and> (\<not> success r \<longrightarrow> cart (confirmOrder (Resolved r) st) = cart st)
   \<and> cart (confirmOrder Rejected st) = cart st
   \<and> cart (confirmOrder Resolved_null st) = cart st
   \<and> (\<not> loggedIn st \<longrightarrow> cart (confirmOrder response st) = cart st)
   \<and> cart (handlePlaceOrder st) = cart st
   \<and> (cart (confirmOrder response st) = [] \<or> cart (confirmOrder response st) = cart st)"
  by (cases response) (simp_all add: confirmOrder_def handlePlaceOrder_def)

theorem checkout_atomic_witness:
  "cart (confirmOrder (Resolved \<lparr>success = True\<rparr>)
      \<lparr>cart = [\<lparr>id' = 1, name = ''A'', price = 5 / 2, quantity = 2\<rparr>],
       address = ''12 Main Street'', phone = ''+91 98765 43210'', showDialog = True,
       loggedIn = True, toasts = [], route = None\<rparr>) = []
   \<and> cart (confirmOrder (Resolved \<lparr>success = False\<rparr>)
      \<lparr>cart = [\<lparr>id' = 1, name = ''A'', price = 5 / 2, quantity = 2\<rparr>],
       address = ''12 Main Street'', phone = ''+91 98765 43210'', showDialog = True,
       loggedIn = True, toasts = [], route = None\<rparr>)
      = [\<lparr>id' = 1, name = ''A'', price = 5 / 2, quantity = 2\<rparr>]
   \<and> cart (confirmOrder (Resolved \<lparr>success = True\<rparr>)
      \<lparr>cart = [\<lparr>id' = 1, name = ''A'', price = 5 / 2, quantity = 2\<rparr>],
       address = ''12 Main Street'', phone = ''+91 98765 43210'', showDialog = True,
       loggedIn = False, toasts = [], route = None\<rparr>)
      = [\<lparr>id' = 1, name = ''A'', price = 5 / 2, quantity = 2\<rparr>]"
  using
    checkout_atomic [of "\<lparr>cart = [\<lparr>id' = 1, name = ''A'', price = 5 / 2, quantity = 2\<rparr>],
       address = ''12 Main Street'', phone = ''+91 98765 43210'', showDialog = True,
       loggedIn = True, toasts = [], route = None\<rparr>" "\<lparr>success = True\<rparr>" Rejected]
    checkout_atomic [of "\<lparr>cart = [\<lparr>id' = 1, name = ''A'', price = 5 / 2, quantity = 2\<rparr>],
       address = ''12 Main Street'', phone = ''+91 98765 43210'', showDialog = True,
       loggedIn = True, toasts = [], route = None\<rparr>" "\<lparr>success = False\<rparr>" Rejected]
    checkout_atomic [of "\<lparr>cart = [\<lparr>id' = 1, name = ''A'', price = 5 / 2, quantity = 2\<rparr>],
       address = ''12 Main Street'', phone = ''+91 98765 43210'', showDialog = True,
       loggedIn = False, toasts = [], route = None\<rparr>" "\<lparr>success = True\<rparr>"
       "Resolved \<lparr>success = True\<rparr>"]
  by simp

section \<open>Properties of the notification poll\<close>

lemma loadNotifications_failed:
  "response = Rejected \<or> response = Resolved_null \<Longrightarrow>
   notifications (loadNotifications response st) = notifications st
   \<and> unreadCount (loadNotifications response st) = unreadCount st
   \<and> hasUser (loadNotifications response st) = hasUser st"
  by (auto simp: loadNotifications_def)

lemma poll_failed:
  "\<forall>r\<in>set responses. r = Rejected \<or> r = Resolved_null \<Longrightarrow>
   notifications (poll responses st) = notifications st
   \<and> unreadCount (poll responses st) = unreadCount st"
proof (induction responses arbitrary: st)
  case Nil
  show ?case by (simp add: poll_def)
next
  case (Cons r rs)
  from Cons.prems have r: "r = Rejected \<or> r = Resolved_null" and rs: "\<forall>r\<in>set rs. r = Rejected \<or> r = Resolved_null"
    by simp_all
  have "poll (r # rs) st = poll rs (loadNotifications r st)" by (simp add: poll_def)
  with Cons.IH [OF rs, of "loadNotifications r st"] loadNotifications_failed [OF r, of st]
  show ?case by simp
qed

text \<open>
  C9. A tick whose request is rejected, or whose body is \<^verbatim>\<open>null\<close>, leaves the list of
  notifications and the unread count as they were, and so does any run of such ticks; when
  a tick changes the list or the count, its request resolved with a body.
\<close>

theorem poll_failure_keeps_notifications:
  "notifications (loadNotifications Rejected st) = notifications st
   \<and> unreadCount (loadNotifications Rejected st) = unreadCount st
   \<and> notifications (loadNotifications Resolved_null st) = notifications st
   \<and> unreadCount (loadNotifications Resolved_null st) = unreadCount st
   \<and> (notifications (loadNotifications response st) \<noteq> notifications st
        \<or> unreadCount (loadNotifications response st) \<noteq> unreadCount st
      \<longrightarrow> (\<exists>r. response = Resolved r))
   \<and> ((\<forall>r\<in>set responses. r = Rejected \<or> r = Resolved_null) \<longrightarrow>
        notifications (poll responses st) = notifications st
        \<and> unreadCount (poll responses st) = unreadCount st)"
proof -
  have "notifications (loadNotifications response st) \<noteq> notifications st
        \<or> unreadCount (loadNotifications response st) \<noteq> unreadCount st
      \<longrightarrow> (\<exists>r. response = Resolved r)"
    by (cases response) (simp_all add: loadNotifications_def)
  then show ?thesis
    using loadNotifications_failed [of Rejected st] loadNotifications_failed [of Resolved_null st]
      poll_failed [of responses st]
    by simp
qed

theorem poll_failure_keeps_notifications_witness:
  "notifications (loadNotifications Rejected
      \<lparr>notifications = [\<lparr>notif_id = ''n1'', userId = ''1'', notif_type = ''consultation'',
          title = ''Consultation completed'', message = ''Your prescription is ready'',
          read = False, createdAt = ''2025-01-01'', consultationId = Some 7\<rparr>],
       unreadCount = 1, hasUser = True, console_errors = []\<rparr>)
     = [\<lparr>notif_id = ''n1'', userId = ''1'', notif_type = ''consultation'',
          title = ''Consultation completed'', message = ''Your prescription is ready'',
          read = False, createdAt = ''2025-01-01'', consultationId = Some 7\<rparr>]
   \<and> notifications (loadNotifications (Resolved \<lparr>resp_notifications = Some [], resp_unreadCount = Some 0\<rparr>)
      \<lparr>notifications = [\<lparr>notif_id = ''n1'', userId = ''1'', notif_type = ''consultation'',
          title = ''Consultation completed'', message = ''Your prescription is ready'',
          read = False, createdAt = ''2025-01-01'', consultationId = Some 7\<rparr>],
       unreadCount = 1, hasUser = True, console_errors = []\<rparr>)
     \<noteq> [\<lparr>notif_id = ''n1'', userId = ''1'', notif_type = ''consultation'',
          title = ''Consultation completed'', message = ''Your prescription is ready'',
          read = False, createdAt = ''2025-01-01'', consultationId = Some 7\<rparr>]
   \<and> unreadCount (poll [Rejected, Resolved_null, Rejected]
      \<lparr>notifications = [\<lparr>notif_id = ''n1'', userId = ''1'', notif_type = ''consultation'',
          title = ''Consultation completed'', message = ''Your prescription is ready'',
          read = False, createdAt = ''2025-01-01'', consultationId = Some 7\<rparr>],
       unreadCount = 1, hasUser = True, console_errors = []\<rparr>) = 1
   \<and> notifications (poll [Rejected, Resolved_null, Rejected]
      \<lparr>notifications = [\<lparr>notif_id = ''n1'', userId = ''1'', notif_type = ''consultation'',
          title = ''Consultation completed'', message = ''Your prescription is ready'',
          read = False, createdAt = ''2025-01-01'', consultationId = Some 7\<rparr>],
       unreadCount = 1, hasUser = True, console_errors = []\<rparr>)
     = [\<lparr>notif_id = ''n1'', userId = ''1'', notif_type = ''consultation'',
          title = ''Consultation completed'', message = ''Your prescription is ready'',
          read = False, createdAt = ''2025-01-01'', consultationId = Some 7\<rparr>]"
proof -
  let ?st = "\<lparr>notifications = [\<lparr>notif_id = ''n1'', userId = ''1'', notif_type = ''consultation'',
          title = ''Consultation completed'', message = ''Your prescription is ready'',
          read = False, createdAt = ''2025-01-01'', consultationId = Some 7\<rparr>],
       unreadCount = 1, hasUser = True, console_errors = []\<rparr>"
  have changed: "notifications (loadNotifications
      (Resolved \<lparr>resp_notifications = Some [], resp_unreadCount = Some 0\<rparr>) ?st) \<noteq> notifications ?st"
    by (simp add: loadNotifications_def)
  have failing: "\<forall>r\<in>set [Rejected, Resolved_null, Rejected :: NotificationsResponse awaited].
         r = Rejected \<or> r = Resolved_null"
    by simp
  show ?thesis
    using changed failing
      poll_failure_keeps_notifications [of ?st
        "Resolved \<lparr>resp_notifications = Some [], resp_unreadCount = Some 0\<rparr>"
        "[Rejected, Resolved_null, Rejected]"]
    by simp
qed

section \<open>Properties of the session store\<close>

lemma restore_Throws_iff:
  "restore st = Throws e st' \<longleftrightarrow>
     (\<exists>savedUser savedType. localStorage st ''user'' = Some savedUser
        \<and> localStorage st ''userType'' = Some savedType
        \<and> savedUser \<noteq> [] \<and> savedType \<noteq> [] \<and> \<not> is_json savedUser)
     \<and> e = SyntaxError \<and> st' = st"
  by (auto simp: restore_def JSON_parse_def split: option.splits)

lemma restore_missing_key:
  "localStorage st ''user'' = None \<or> localStorage st ''userType'' = None \<Longrightarrow>
   restore st = Returns (st\<lparr>isLoading := False\<rparr>)"
  by (auto simp: restore_def split: option.splits)

lemma restore_Returns_changed:
  "restore st = Returns st' \<Longrightarrow> user st' \<noteq> user st \<Longrightarrow>
   localStorage st ''user'' \<noteq> None \<and> localStorage st ''userType'' \<noteq> None"
  by (auto simp: restore_def split: option.splits if_splits sum.splits)

text \<open>
  C6 says that \<^verbatim>\<open>restore\<close> fails soft on corrupted storage: an empty session, loading
  set to false, no error thrown. The code does otherwise. With a stored identity that was
  cut short and a role tag, \<^verbatim>\<open>JSON.parse\<close> throws a \<^verbatim>\<open>SyntaxError\<close> out of the effect,
  \<^verbatim>\<open>setIsLoading(false)\<close> is not reached and the session keeps loading.
\<close>

theorem restore_corrupt_storage_throws:
  \<open>restore (initial [''user'' \<mapsto> ''{"id":"1","name":"John'', ''userType'' \<mapsto> ''patient''])
     = Throws SyntaxError (initial [''user'' \<mapsto> ''{"id":"1","name":"John'', ''userType'' \<mapsto> ''patient''])
   \<and> isLoading (initial [''user'' \<mapsto> ''{"id":"1","name":"John'', ''userType'' \<mapsto> ''patient''])\<close>
  by (simp add: restore_def initial_def JSON_parse_def denotes_null_def is_json_def value_start_def
      after_value_def string_end_def is_ws_def is_digit_def accepting_def)

text \<open>
  C10. When the identity or the role tag is missing from the storage, \<^verbatim>\<open>restore\<close> sets
  \<^verbatim>\<open>isLoading\<close> to false and nothing else: from the initial state the session stays empty.
  A \<^verbatim>\<open>restore\<close> that changes the user found both keys.
\<close>

theorem restore_needs_both_keys:
  "(localStorage st ''user'' = None \<or> localStorage st ''userType'' = None \<longrightarrow>
      restore st = Returns (st\<lparr>isLoading := False\<rparr>))
   \<and> (storage ''user'' = None \<or> storage ''userType'' = None \<longrightarrow>
      restore (initial storage) =
        Returns \<lparr>user = Null, userType = None, isLoading = False, localStorage = storage\<rparr>
      \<and> \<not> isAuthenticated \<lparr>user = Null, userType = None, isLoading = False, localStorage = storage\<rparr>)
   \<and> (restore st = Returns st' \<and> user st' \<noteq> user st \<longrightarrow>
      localStorage st ''user'' \<noteq> None \<and> localStorage st ''userType'' \<noteq> None)"
proof -
  have "restore (initial storage) =
        Returns \<lparr>user = Null, userType = None, isLoading = False, localStorage = storage\<rparr>"
    if "storage ''user'' = None \<or> storage ''userType'' = None"
    using restore_missing_key [of "initial storage"] that by (simp add: initial_def)
  moreover have "\<not> isAuthenticated \<lparr>user = Null, userType = None, isLoading = False, localStorage = storage\<rparr>"
    by (simp add: isAuthenticated_def truthy_def)
  ultimately show ?thesis
    using restore_missing_key [of st] restore_Returns_changed [of st st'] by blast
qed

theorem restore_needs_both_keys_witness:
  \<open>[''user'' \<mapsto> ''{"id":"1"}''] ''userType'' = None
   \<and> restore (initial [''user'' \<mapsto> ''{"id":"1"}''])
      = Returns \<lparr>user = Null, userType = None, isLoading = False,
                 localStorage = [''user'' \<mapsto> ''{"id":"1"}'']\<rparr>
   \<and> [''userType'' \<mapsto> ''patient''] ''user'' = None
   \<and> restore (initial [''userType'' \<mapsto> ''patient''])
      = Returns \<lparr>user = Null, userType = None, isLoading = False,
                 localStorage = [''userType'' \<mapsto> ''patient'']\<rparr>
   \<and> restore (initial [''user'' \<mapsto> ''{"id":"1"}'', ''userType'' \<mapsto> ''patient''])
      = Returns \<lparr>user = Parsed ''{"id":"1"}'', userType = Some ''patient'', isLoading = False,
                 localStorage = [''user'' \<mapsto> ''{"id":"1"}'', ''userType'' \<mapsto> ''patient'']\<rparr>
   \<and> user \<lparr>user = Parsed ''{"id":"1"}'', userType = Some ''patient'', isLoading = False,
                 localStorage = [''user'' \<mapsto> ''{"id":"1"}'', ''userType'' \<mapsto> ''patient'']\<rparr>
       \<noteq> user (initial [''user'' \<mapsto> ''{"id":"1"}'', ''userType'' \<mapsto> ''patient''])
   \<and> [''user'' \<mapsto> ''{"id":"1"}'', ''userType'' \<mapsto> ''patient''] ''user'' \<noteq> None\<close>
proof -
  have both: \<open>restore (initial [''user'' \<mapsto> ''{"id":"1"}'', ''userType'' \<mapsto> ''patient''])
      = Returns \<lparr>user = Parsed ''{"id":"1"}'', userType = Some ''patient'', isLoading = False,
                 localStorage = [''user'' \<mapsto> ''{"id":"1"}'', ''userType'' \<mapsto> ''patient'']\<rparr>\<close>
    by (simp add: restore_def initial_def JSON_parse_def denotes_null_def is_json_def value_start_def
      after_value_def string_end_def is_ws_def is_digit_def accepting_def)
  show ?thesis
    using both
      restore_needs_both_keys [of \<open>initial [''user'' \<mapsto> ''{"id":"1"}'']\<close>
        \<open>[''user'' \<mapsto> ''{"id":"1"}'']\<close>
        \<open>\<lparr>user = Null, userType = None, isLoading = False,
                 localStorage = [''user'' \<mapsto> ''{"id":"1"}'']\<rparr>\<close>]
      restore_needs_both_keys [of \<open>initial [''user'' \<mapsto> ''{"id":"1"}'', ''userType'' \<mapsto> ''patient'']\<close>
        \<open>[''userType'' \<mapsto> ''patient'']\<close>
        \<open>\<lparr>user = Parsed ''{"id":"1"}'', userType = Some ''patient'', isLoading = False,
                 localStorage = [''user'' \<mapsto> ''{"id":"1"}'', ''userType'' \<mapsto> ''patient'']\<rparr>\<close>]
    by (simp add: initial_def)
qed

text \<open>
  C7. \<^verbatim>\<open>login\<close> with \<^verbatim>\<open>patient@demo.com\<close>, \<^verbatim>\<open>patient123\<close> and the type patient returns
  true; afterwards the session is authenticated, the type of its user is patient and both
  keys are stored. With any other password for that patient it returns false and the
  state, storage included, is the state before the call; and so it is whenever \<^verbatim>\<open>login\<close>
  returns false.
\<close>

theorem login_contract:
  "fst (login st ''patient@demo.com'' ''patient123'' (Some patient))
   \<and> isAuthenticated (snd (login st ''patient@demo.com'' ''patient123'' (Some patient)))
   \<and> active_user_type (snd (login st ''patient@demo.com'' ''patient123'' (Some patient))) = Some patient
   \<and> localStorage (snd (login st ''patient@demo.com'' ''patient123'' (Some patient))) ''user'' \<noteq> None
   \<and> localStorage (snd (login st ''patient@demo.com'' ''patient123'' (Some patient))) ''userType''
       = Some ''patient''
   \<and> (password \<noteq> ''patient123'' \<longrightarrow>
        login st ''patient@demo.com'' password (Some patient) = (False, st))
   \<and> (\<not> fst (login st email password' type) \<longrightarrow> snd (login st email password' type) = st)"
proof -
  have ok: "login st ''patient@demo.com'' ''patient123'' (Some patient) =
      (True, st\<lparr>user := UserObject \<lparr>user_id = ''1'', user_name = ''John Doe'',
                   user_email = ''patient@demo.com'', user_type = Some patient,
                   user_specialization = None, user_phone = Some ''+91 98765 43210''\<rparr>,
                 userType := Some ''patient'',
                 localStorage := (localStorage st)
                   (''user'' \<mapsto> JSON_stringify \<lparr>user_id = ''1'', user_name = ''John Doe'',
                       user_email = ''patient@demo.com'', user_type = Some patient,
                       user_specialization = None, user_phone = Some ''+91 98765 43210''\<rparr>,
                    ''userType'' \<mapsto> ''patient'')\<rparr>)"
    by (simp add: login_def DEMO_PATIENTS_def Let_def)
  have wrong: "password \<noteq> ''patient123'' \<longrightarrow>
        login st ''patient@demo.com'' password (Some patient) = (False, st)"
    by (simp add: login_def DEMO_PATIENTS_def)
  have failed: "\<not> fst (login st email password' type) \<longrightarrow> snd (login st email password' type) = st"
    by (simp add: login_def Let_def split: option.splits)
  show ?thesis
    unfolding ok using wrong failed
    by (simp add: isAuthenticated_def truthy_def active_user_type_def)
qed

theorem login_contract_witness:
  "''wrong'' \<noteq> ''patient123''
   \<and> login (initial Map.empty) ''patient@demo.com'' ''wrong'' (Some patient) = (False, initial Map.empty)
   \<and> \<not> fst (login (initial Map.empty) ''doctor@demo.com'' ''doctor123'' (Some patient))
   \<and> snd (login (initial Map.empty) ''doctor@demo.com'' ''doctor123'' (Some patient)) = initial Map.empty"
proof -
  have "\<not> fst (login (initial Map.empty) ''doctor@demo.com'' ''doctor123'' (Some patient))"
    by (simp add: login_def DEMO_PATIENTS_def)
  then show ?thesis
    using login_contract [of "initial Map.empty" "''wrong''" "''doctor@demo.com''" "''doctor123''" "Some patient"]
    by simp
qed

text \<open>
  C8. After \<^verbatim>\<open>logout\<close>, from any state, the session is not authenticated, the user and
  the user type are \<^verbatim>\<open>null\<close> and both keys are gone from the storage, the other keys
  being kept. \<^verbatim>\<open>logout\<close> is a total function of the state, and a second \<^verbatim>\<open>logout\<close>
  changes nothing.
\<close>

theorem logout_contract:
  "\<not> isAuthenticated (logout st)
   \<and> user (logout st) = Null
   \<and> userType (logout st) = None
   \<and> localStorage (logout st) ''user'' = None
   \<and> localStorage (logout st) ''userType'' = None
   \<and> dom (localStorage (logout st)) = dom (localStorage st) - {''user'', ''userType''}
   \<and> isLoading (logout st) = isLoading st
   \<and> logout (logout st) = logout st"
  by (auto simp: logout_def isAuthenticated_def truthy_def)

end
